theory Spec2Isabelle
  imports Complex_Main
begin

section \<open>Configuration constants (config/car\_control\_config.py)\<close>

definition BASE_SPEED :: int where "BASE_SPEED = 500"
definition MAX_SPEED :: int where "MAX_SPEED = 800"
definition MEDITATION_THRESHOLD :: int where "MEDITATION_THRESHOLD = 95"
definition MIN_DIRECTION :: int where "MIN_DIRECTION = 500"
definition MAX_DIRECTION :: int where "MAX_DIRECTION = 2500"
definition CENTER_DIRECTION :: int where "CENTER_DIRECTION = 1500"
definition MAX_ATTENTION_VALUE :: int where "MAX_ATTENTION_VALUE = 100"
definition MAX_MEDITATION_VALUE :: int where "MAX_MEDITATION_VALUE = 100"
definition DIRECTION_RANGE_PER_SIDE :: int where "DIRECTION_RANGE_PER_SIDE = 400"
definition STEERING_GAIN :: real where "STEERING_GAIN = 2"

section \<open>Python helpers\<close>

text \<open>Decimal rendering of an integer, as an f-string prints an \<open>int\<close>.\<close>

definition digit_char :: "nat \<Rightarrow> char" where
  "digit_char n = ''0123456789'' ! n"

fun str_nat :: "nat \<Rightarrow> string" where
  "str_nat n = (if n < 10 then [digit_char n]
                else str_nat (n div 10) @ [digit_char (n mod 10)])"

declare str_nat.simps [simp del]

definition str_int :: "int \<Rightarrow> string" where
  "str_int i = (if i < 0 then CHR ''-'' # str_nat (nat (- i)) else str_nat (nat i))"

text \<open>Truthiness of a value that is either \<open>None\<close> or a string.\<close>

fun truthy :: "string option \<Rightarrow> bool" where
  "truthy None = False"
| "truthy (Some s) = (s \<noteq> [])"

text \<open>\<open>str.strip()\<close> on the ASCII whitespace characters.\<close>

definition is_space :: "char \<Rightarrow> bool" where
  "is_space c = (c \<in> set [CHR '' '', CHR 0x09, CHR 0x0A, CHR 0x0B, CHR 0x0C, CHR 0x0D,
                           CHR 0x1C, CHR 0x1D, CHR 0x1E, CHR 0x1F])"

definition strip :: "string \<Rightarrow> string" where
  "strip s = rev (dropWhile is_space (rev (dropWhile is_space s)))"

text \<open>The test \<open>cmd and cmd.strip()\<close> of the generator.\<close>

definition nonblank :: "string \<Rightarrow> bool" where
  "nonblank s = (s \<noteq> [] \<and> strip s \<noteq> [])"

section \<open>Command vocabulary (BrainLinkParser/command\_map.py)\<close>

definition COMMAND_MAP :: "string \<rightharpoonup> string" where
  "COMMAND_MAP = map_of
     [(''forward'', ''<BUPD>''),
      (''backward'', ''<BDND>''),
      (''left'', ''<BLTD>''),
      (''right'', ''<BRTD>''),
      (''speed_up'', ''BUAD''),
      (''speed_down'', ''BUMD''),
      (''stop_forward'', ''<BUPU>''),
      (''stop_backward'', ''<BDNU>''),
      (''stop_left'', ''<BLTU>''),
      (''stop_right'', ''<BRTU>''),
      (''stop_all'', ''BSTD''),
      (''speed'', ''<SPD-'')]"

record param_info =
  has_parameter :: bool
  min_value :: int
  max_value :: int
  format :: string
  parameter_name :: string

definition COMMAND_PARAMS :: "string \<rightharpoonup> param_info" where
  "COMMAND_PARAMS = map_of
     [(''steering'', \<lparr>has_parameter = True, min_value = 500, max_value = 2500,
                      format = ''<SUP-{angle}>'', parameter_name = ''angle''\<rparr>),
      (''speed'', \<lparr>has_parameter = True, min_value = 500, max_value = 1000,
                   format = ''<SPD-{speed}>'', parameter_name = ''speed''\<rparr>)]"

definition get_forward_command :: "string option" where
  "get_forward_command = COMMAND_MAP ''forward''"

definition get_backward_command :: "string option" where
  "get_backward_command = COMMAND_MAP ''backward''"

definition get_left_command :: "string option" where
  "get_left_command = COMMAND_MAP ''left''"

definition get_right_command :: "string option" where
  "get_right_command = COMMAND_MAP ''right''"

definition get_stop_all_command :: "string option" where
  "get_stop_all_command = COMMAND_MAP ''stop_all''"

definition get_speed_command :: "int \<Rightarrow> string option" where
  "get_speed_command spd =
     (case COMMAND_PARAMS ''speed'' of
        None \<Rightarrow> None
      | Some speed_info \<Rightarrow>
          if has_parameter speed_info then
            (if min_value speed_info \<le> spd \<and> spd \<le> max_value speed_info
             then Some (''<SPD-'' @ str_int spd @ ''>'')
             else None)
          else None)"

text \<open>
  \<open>get_steering_command\<close> clamps an out-of-range angle into \<open>[500, 2500]\<close> and always
  returns a string; the result is wrapped in \<open>Some\<close> because its caller tests it
  against \<open>None\<close>.
\<close>

definition get_steering_command :: "int \<Rightarrow> string option" where
  "get_steering_command angle =
     (let angle' = (if angle < 500 \<or> angle > 2500 then max 500 (min 2500 angle) else angle)
      in Some (''<SUP-'' @ str_int angle' @ ''>''))"

section \<open>Command generator (BrainLinkParser/generator.py)\<close>

record generator_state =
  current_speed :: int
  last_is_forward :: "bool option"
  previous_angle :: "int option"

definition init_generator :: generator_state where
  "init_generator = \<lparr>current_speed = BASE_SPEED, last_is_forward = None, previous_angle = None\<rparr>"

text \<open>
  The control dictionary: a field is \<open>None\<close> when its key is absent from the dictionary.
\<close>

record car_control =
  speed :: "int option"
  direction :: "int option"
  is_forward :: "bool option"

definition triple :: "int \<Rightarrow> int \<Rightarrow> bool \<Rightarrow> car_control" where
  "triple s d f = \<lparr>speed = Some s, direction = Some d, is_forward = Some f\<rparr>"

definition generate_speed_commands :: "generator_state \<Rightarrow> int \<Rightarrow> string list \<times> generator_state" where
  "generate_speed_commands st target_speed =
     (let speed_commands =
            (if target_speed = 0 then
               (let stop_command = get_stop_all_command
                in if truthy stop_command then [the stop_command] else [])
             else if 500 \<le> target_speed \<and> target_speed \<le> 1000 then
               (if target_speed \<noteq> current_speed st then
                  (let speed_command = get_speed_command target_speed
                   in if truthy speed_command then [the speed_command] else [])
                else [])
             else [])
      in if speed_commands \<noteq> []
         then (speed_commands, st\<lparr>current_speed := target_speed\<rparr>)
         else (speed_commands, st))"

definition get_direction_command :: "string \<Rightarrow> string option" where
  "get_direction_command d =
     (if d = ''forward'' then get_forward_command
      else if d = ''backward'' then get_backward_command
      else if d = ''left'' then get_left_command
      else if d = ''right'' then get_right_command
      else None)"

definition generate_movement_command :: "generator_state \<Rightarrow> bool \<Rightarrow> string \<times> generator_state" where
  "generate_movement_command st fwd =
     (let d = (if fwd then ''forward'' else ''backward'');
          movement_command = get_direction_command d
      in if truthy movement_command
         then (the movement_command, st\<lparr>last_is_forward := Some fwd\<rparr>)
         else ('''', st))"

definition generate_direction_command :: "generator_state \<Rightarrow> int \<Rightarrow> string \<times> generator_state" where
  "generate_direction_command st angle =
     (if previous_angle st \<noteq> None \<and> Some angle = previous_angle st then ('''', st)
      else (case get_steering_command angle of
              None \<Rightarrow> ('''', st)
            | Some direction_command \<Rightarrow> (direction_command, st\<lparr>previous_angle := Some angle\<rparr>)))"

text \<open>
  The facing step of \<open>generate_commands_from_car_control\<close> (source lines 172 to 181): a
  movement command is asked for when the stored facing differs from the requested one,
  or when none is stored yet. The steering step is source lines 183 to 187.
\<close>

definition facing_step :: "generator_state \<Rightarrow> bool \<Rightarrow> string list \<times> generator_state" where
  "facing_step st fwd =
     (if last_is_forward st \<noteq> None \<and> last_is_forward st \<noteq> Some fwd then
        (let (movement_command, st') = generate_movement_command st fwd
         in (if nonblank movement_command then [movement_command] else [], st'))
      else if last_is_forward st = None then
        (let (movement_command, st') = generate_movement_command st fwd
         in (if nonblank movement_command then [movement_command] else [], st'))
      else ([], st))"

definition steering_step :: "generator_state \<Rightarrow> int \<Rightarrow> string list \<times> generator_state" where
  "steering_step st angle =
     (let (steering_command, st') = generate_direction_command st angle
      in (if nonblank steering_command then [steering_command] else [], st'))"

text \<open>
  The control fields are typed (\<open>int\<close>, \<open>int\<close>, \<open>bool\<close>), so nothing in the body raises
  and the \<open>except\<close> branch of the source, which returns the empty list, is not reached.
\<close>

definition generate_commands_from_car_control ::
    "generator_state \<Rightarrow> car_control \<Rightarrow> string list \<times> generator_state" where
  "generate_commands_from_car_control st car_control_data =
     (case (speed car_control_data, direction car_control_data, is_forward car_control_data) of
        (Some target_speed, Some target_direction, Some fwd) \<Rightarrow>
          (let (speed_commands, st1) = generate_speed_commands st target_speed
           in if target_speed \<noteq> 0 then
                (let (facing_commands, st2) = facing_step st1 fwd;
                     (steering_commands, st3) = steering_step st2 target_direction
                 in (speed_commands @ facing_commands @ steering_commands, st3))
              else (speed_commands, st1))
      | _ \<Rightarrow> ([], st))"

text \<open>Classification of emitted commands, by the vocabulary's templates.\<close>

definition is_speed_command :: "string \<Rightarrow> bool" where
  "is_speed_command c = (take 5 c = ''<SPD-'' \<or> Some c = get_stop_all_command)"

definition is_facing_command :: "string \<Rightarrow> bool" where
  "is_facing_command c = (Some c = get_forward_command \<or> Some c = get_backward_command)"

definition is_steering_command :: "string \<Rightarrow> bool" where
  "is_steering_command c = (take 5 c = ''<SUP-'')"

definition bracket_delimited :: "string \<Rightarrow> bool" where
  "bracket_delimited c = (c \<noteq> [] \<and> hd c = CHR ''<'' \<and> last c = CHR ''>'')"

section \<open>Python floats: IEEE binary64 arithmetic\<close>

text \<open>
  A Python \<open>float\<close> is an IEEE binary64 number. It is modelled by the real number it
  denotes, and every arithmetic operation on floats returns the exact result rounded to
  the nearest binary64 number, ties to even (\<open>rd\<close>). An \<open>int\<close> operand is converted
  exactly. The binade of \<open>x \<ge> 0\<close> is \<open>expo x\<close>, the largest \<open>e \<ge> -1022\<close> with
  \<open>2 ^ e \<le> x\<close> (and \<open>-1022\<close> in the subnormal range), found by halving or doubling;
  the spacing of binary64 numbers there is \<open>2 ^ (e - 52)\<close>. Infinities and NaN are not
  modelled: the inputs are real numbers, and no operation of the converter overflows
  (every intermediate value has magnitude below 2500).
\<close>

function ilog2_ge1 :: "real \<Rightarrow> int" where
  "ilog2_ge1 x = (if x < 2 then 0 else 1 + ilog2_ge1 (x / 2))"
  by pat_completeness auto
termination
proof (relation "measure (\<lambda>x. nat \<lceil>x\<rceil>)")
  show "wf (measure (\<lambda>x::real. nat \<lceil>x\<rceil>))" by simp
next
  fix x :: real
  assume "\<not> x < 2"
  then have "x / 2 \<le> x - 1" by simp
  then have "\<lceil>x / 2\<rceil> \<le> \<lceil>x - 1\<rceil>" by (rule ceiling_mono)
  moreover have "\<lceil>x - 1\<rceil> = \<lceil>x\<rceil> - 1" by simp
  moreover have "0 < \<lceil>x\<rceil>" using \<open>\<not> x < 2\<close> by simp
  ultimately show "(x / 2, x) \<in> measure (\<lambda>x. nat \<lceil>x\<rceil>)" by simp
qed

declare ilog2_ge1.simps [simp del]

fun ilog2_lt1 :: "nat \<Rightarrow> real \<Rightarrow> int" where
  "ilog2_lt1 0 x = 0"
| "ilog2_lt1 (Suc n) x = (if 1 \<le> x then 0 else ilog2_lt1 n (2 * x) - 1)"

definition expo :: "real \<Rightarrow> int" where
  "expo x = (if 1 \<le> x then ilog2_ge1 x else ilog2_lt1 1022 x)"

definition round_half_even :: "real \<Rightarrow> int" where
  "round_half_even x =
     (let f = \<lfloor>x\<rfloor>; r = x - of_int f
      in if r < 1 / 2 then f
         else if r > 1 / 2 then f + 1
         else if even f then f else f + 1)"

definition ulp :: "real \<Rightarrow> real" where
  "ulp x = 2 powi (expo x - 52)"

definition rd_pos :: "real \<Rightarrow> real" where
  "rd_pos x = of_int (round_half_even (x / ulp x)) * ulp x"

definition rd :: "real \<Rightarrow> real" where
  "rd x = (if x < 0 then - rd_pos (- x) else rd_pos x)"

definition fl_add :: "real \<Rightarrow> real \<Rightarrow> real" where
  "fl_add x y = rd (x + y)"

definition fl_sub :: "real \<Rightarrow> real \<Rightarrow> real" where
  "fl_sub x y = rd (x - y)"

definition fl_mul :: "real \<Rightarrow> real \<Rightarrow> real" where
  "fl_mul x y = rd (x * y)"

definition fl_div :: "real \<Rightarrow> real \<Rightarrow> real" where
  "fl_div x y = rd (x / y)"

section \<open>Signal converter (BrainLinkParser/converter.py)\<close>

text \<open>
  \<open>int(x)\<close> truncates towards zero. The comparisons and the clamps (\<open>min\<close>, \<open>max\<close>)
  are exact on floats.
\<close>

definition py_int :: "real \<Rightarrow> int" where
  "py_int x = (if x < 0 then \<lceil>x\<rceil> else \<lfloor>x\<rfloor>)"

record car_status =
  status_direction :: int
  status_speed :: int
  status_is_forward :: bool

record converter_state =
  previous_direction :: int
  previous_gyro_y :: "real option"
  last_direction_state :: bool
  car_status :: car_status

definition init_converter :: converter_state where
  "init_converter =
     \<lparr>previous_direction = CENTER_DIRECTION,
      previous_gyro_y = None,
      last_direction_state = True,
      car_status = \<lparr>status_direction = CENTER_DIRECTION, status_speed = BASE_SPEED,
                     status_is_forward = True\<rparr>\<rparr>"

definition calculate_speed :: "converter_state \<Rightarrow> real \<Rightarrow> real \<Rightarrow> int \<times> converter_state" where
  "calculate_speed st attention0 meditation0 =
     (let attention = max 0 (min attention0 (real_of_int MAX_ATTENTION_VALUE));
          meditation = max 0 (min meditation0 (real_of_int MAX_MEDITATION_VALUE));
          spd = (if meditation > real_of_int MEDITATION_THRESHOLD then BASE_SPEED
                 else (let speed_range = MAX_SPEED - BASE_SPEED;
                           mapped_speed =
                             fl_add (real_of_int BASE_SPEED)
                               (fl_mul (fl_div attention (real_of_int MAX_ATTENTION_VALUE))
                                  (real_of_int speed_range))
                       in max BASE_SPEED (min (py_int mapped_speed) MAX_SPEED)))
      in (spd, st\<lparr>car_status := (car_status st)\<lparr>status_speed := spd\<rparr>\<rparr>))"

text \<open>The argument is \<open>None\<close> for Python's \<open>None\<close>.\<close>

definition calculate_forward_direction ::
    "converter_state \<Rightarrow> real option \<Rightarrow> bool \<times> converter_state" where
  "calculate_forward_direction st gyro_y =
     (case gyro_y of
        None \<Rightarrow> (False, st)
      | Some y \<Rightarrow>
          (let current_direction = (y < 10)
           in (current_direction,
               st\<lparr>car_status := (car_status st)\<lparr>status_is_forward := current_direction\<rparr>\<rparr>)))"

text \<open>
  The direction computed from the tilt, clamped and truncated, before the hysteresis
  test (lines 135 to 163 of the source).
\<close>

definition computed_direction :: "real \<Rightarrow> int" where
  "computed_direction gyro_z0 =
     (let gyro_z = max (- 90) (min gyro_z0 90);
          d = (if gyro_z > 0 then
                 (let left_ratio = fl_mul (fl_div gyro_z 90) STEERING_GAIN
                  in fl_sub (real_of_int CENTER_DIRECTION)
                       (fl_mul left_ratio (real_of_int DIRECTION_RANGE_PER_SIDE)))
               else if gyro_z < 0 then
                 (let normalized_z = (if gyro_z < - 75 then - 75 else gyro_z);
                      right_ratio = fl_mul (fl_div (fl_add normalized_z 75) 75) STEERING_GAIN
                  in fl_add (real_of_int CENTER_DIRECTION)
                       (fl_mul right_ratio (real_of_int DIRECTION_RANGE_PER_SIDE)))
               else real_of_int CENTER_DIRECTION)
      in max MIN_DIRECTION (min (py_int d) MAX_DIRECTION))"

text \<open>
  The threshold \<open>total_range * 0.01\<close> is a float product; the literal \<open>0.01\<close> is the
  binary64 number nearest to \<open>1 / 100\<close>.
\<close>

definition calculate_direction :: "converter_state \<Rightarrow> real \<Rightarrow> int \<times> converter_state" where
  "calculate_direction st gyro_z =
     (let d = computed_direction gyro_z;
          total_range = MAX_DIRECTION - MIN_DIRECTION;
          change_threshold = fl_mul (real_of_int total_range) (rd (1 / 100))
      in if real_of_int \<bar>d - previous_direction st\<bar> < change_threshold
         then (previous_direction st, st)
         else (d, st\<lparr>previous_direction := d,
                     car_status := (car_status st)\<lparr>status_direction := d\<rparr>\<rparr>))"

text \<open>
  The sample dictionary. A field of the record is \<open>None\<close> when the key is absent; a
  present value is Python's \<open>None\<close> or a number. The \<open>gyro\<close> entry is \<open>None\<close>, a
  dictionary, or some value that is not a dictionary.
\<close>

datatype pyval = PyNone | PyNum real

datatype gyro_value = GyroNone | GyroDict "string \<rightharpoonup> pyval" | GyroOther

record essential_data =
  attention :: "pyval option"
  meditation :: "pyval option"
  gyro :: "gyro_value option"

text \<open>\<open>gyro.get(key, 0) if isinstance(gyro, dict) else 0\<close>\<close>

definition gyro_get :: "gyro_value \<Rightarrow> string \<Rightarrow> pyval" where
  "gyro_get g k =
     (case g of
        GyroDict m \<Rightarrow> (case m k of None \<Rightarrow> PyNum 0 | Some v \<Rightarrow> v)
      | _ \<Rightarrow> PyNum 0)"

text \<open>
  The body of the \<open>try\<close> block of \<open>convert_essential_data\<close>. It returns \<open>None\<close> for an
  incomplete sample. \<open>calculate_direction(None)\<close> raises a \<open>TypeError\<close> in
  \<open>min(None, 90)\<close>, after \<open>calculate_speed\<close> has already updated the state.
\<close>

datatype py_error = TypeError

definition convert_try ::
    "converter_state \<Rightarrow> essential_data \<Rightarrow> (py_error + car_control option) \<times> converter_state" where
  "convert_try st data =
     (case (attention data, meditation data, gyro data) of
        (Some (PyNum att), Some (PyNum med), Some g) \<Rightarrow>
          (if g = GyroNone then (Inr None, st)
           else
             (let gyro_y = gyro_get g ''y'';
                  gyro_z = gyro_get g ''z'';
                  (spd, st1) = calculate_speed st att med
              in (case gyro_z of
                    PyNone \<Rightarrow> (Inl TypeError, st1)
                  | PyNum z \<Rightarrow>
                      (let (dir, st2) = calculate_direction st1 z;
                           (fwd, st3) = calculate_forward_direction st2
                                          (case gyro_y of PyNone \<Rightarrow> None | PyNum y \<Rightarrow> Some y)
                       in (Inr (Some \<lparr>speed = Some spd, direction = Some dir,
                                       is_forward = Some fwd\<rparr>),
                           st3)))))
      | _ \<Rightarrow> (Inr None, st))"

text \<open>
  \<open>convert_essential_data\<close>: the \<open>except Exception\<close> handler turns every exception of the
  body into the return value \<open>None\<close>.
\<close>

definition convert_essential_data ::
    "converter_state \<Rightarrow> essential_data \<Rightarrow> car_control option \<times> converter_state" where
  "convert_essential_data st data =
     (case convert_try st data of
        (Inl e, st') \<Rightarrow> (None, st')
      | (Inr r, st') \<Rightarrow> (r, st'))"

section \<open>Evaluation lemmas\<close>

lemmas config_defs =
  BASE_SPEED_def MAX_SPEED_def MEDITATION_THRESHOLD_def MIN_DIRECTION_def
  MAX_DIRECTION_def CENTER_DIRECTION_def MAX_ATTENTION_VALUE_def
  MAX_MEDITATION_VALUE_def DIRECTION_RANGE_PER_SIDE_def STEERING_GAIN_def

lemma get_stop_all_command_eq: "get_stop_all_command = Some ''BSTD''"
  by (simp add: get_stop_all_command_def COMMAND_MAP_def)

lemma get_forward_command_eq: "get_forward_command = Some ''<BUPD>''"
  by (simp add: get_forward_command_def COMMAND_MAP_def)

lemma get_backward_command_eq: "get_backward_command = Some ''<BDND>''"
  by (simp add: get_backward_command_def COMMAND_MAP_def)

lemma get_speed_command_eq:
  "get_speed_command spd =
     (if 500 \<le> spd \<and> spd \<le> 1000 then Some (''<SPD-'' @ str_int spd @ ''>'') else None)"
  by (simp add: get_speed_command_def COMMAND_PARAMS_def)

section \<open>The generator's steps in closed form\<close>

lemma nonblank_bracket: "nonblank (CHR ''<'' # s @ ''>'')"
  by (simp add: nonblank_def strip_def is_space_def)

lemma generate_speed_commands_eq:
  "generate_speed_commands st t =
     (if t = 0 then ([''BSTD''], st\<lparr>current_speed := 0\<rparr>)
      else if 500 \<le> t \<and> t \<le> 1000 \<and> t \<noteq> current_speed st
        then ([''<SPD-'' @ str_int t @ ''>''], st\<lparr>current_speed := t\<rparr>)
      else ([], st))"
  by (simp add: generate_speed_commands_def get_stop_all_command_eq get_speed_command_eq)

lemma generate_movement_command_eq:
  "generate_movement_command st fwd =
     (if fwd then ''<BUPD>'' else ''<BDND>'', st\<lparr>last_is_forward := Some fwd\<rparr>)"
  by (simp add: generate_movement_command_def get_direction_command_def
      get_forward_command_eq get_backward_command_eq)

lemma facing_step_eq:
  "facing_step st fwd =
     (if last_is_forward st = Some fwd then ([], st)
      else ([if fwd then ''<BUPD>'' else ''<BDND>''], st\<lparr>last_is_forward := Some fwd\<rparr>))"
  using nonblank_bracket [of "''BUPD''"] nonblank_bracket [of "''BDND''"]
  by (cases "last_is_forward st") (auto simp add: facing_step_def generate_movement_command_eq)

lemma get_steering_command_eq:
  "get_steering_command a = Some (''<SUP-'' @ str_int (max 500 (min 2500 a)) @ ''>'')"
  by (simp add: get_steering_command_def Let_def)

lemma steering_step_eq:
  "steering_step st a =
     (if previous_angle st = Some a then ([], st)
      else ([''<SUP-'' @ str_int (max 500 (min 2500 a)) @ ''>''], st\<lparr>previous_angle := Some a\<rparr>))"
  using nonblank_bracket [of "''SUP-'' @ str_int (max 500 (min 2500 a))"]
  by (auto simp add: steering_step_def generate_direction_command_def get_steering_command_eq
      nonblank_def)

lemma generate_triple_eq:
  "generate_commands_from_car_control st (triple s d f) =
     (if s = 0 then ([''BSTD''], st\<lparr>current_speed := 0\<rparr>)
      else (fst (generate_speed_commands st s)
             @ fst (facing_step (snd (generate_speed_commands st s)) f)
             @ fst (steering_step (snd (facing_step (snd (generate_speed_commands st s)) f)) d),
            snd (steering_step (snd (facing_step (snd (generate_speed_commands st s)) f)) d)))"
  by (simp add: generate_commands_from_car_control_def triple_def generate_speed_commands_eq
      split: prod.splits)

lemma bracket_delimited_template: "bracket_delimited (CHR ''<'' # s @ ''>'')"
  by (simp add: bracket_delimited_def)

lemma speed_commands_mem:
  "c \<in> set (fst (generate_speed_commands st t)) \<Longrightarrow>
     c = ''BSTD'' \<or> (500 \<le> t \<and> t \<le> 1000 \<and> c = ''<SPD-'' @ str_int t @ ''>'')"
  by (simp add: generate_speed_commands_eq split: if_splits)

lemma facing_step_mem:
  "c \<in> set (fst (facing_step st f)) \<Longrightarrow> c = ''<BUPD>'' \<or> c = ''<BDND>''"
  by (simp add: facing_step_eq split: if_splits)

lemma steering_step_mem:
  "c \<in> set (fst (steering_step st d)) \<Longrightarrow>
     c = ''<SUP-'' @ str_int (max 500 (min 2500 d)) @ ''>''"
  by (simp add: steering_step_eq split: if_splits)

lemma generate_mem:
  assumes "c \<in> set (fst (generate_commands_from_car_control st ctl))"
  shows "c = ''BSTD'' \<or> c = ''<BUPD>'' \<or> c = ''<BDND>''
         \<or> (\<exists>n. 500 \<le> n \<and> n \<le> 1000 \<and> c = ''<SPD-'' @ str_int n @ ''>'')
         \<or> (\<exists>a. 500 \<le> a \<and> a \<le> 2500 \<and> c = ''<SUP-'' @ str_int a @ ''>'')"
proof (cases "speed ctl")
  case None
  with assms show ?thesis by (simp add: generate_commands_from_car_control_def)
next
  case s: (Some s)
  show ?thesis
  proof (cases "direction ctl")
    case None
    with assms s show ?thesis by (simp add: generate_commands_from_car_control_def)
  next
    case d: (Some d)
    show ?thesis
    proof (cases "is_forward ctl")
      case None
      with assms s d show ?thesis by (simp add: generate_commands_from_car_control_def)
    next
      case f: (Some f)
      have ctl: "generate_commands_from_car_control st ctl
                   = generate_commands_from_car_control st (triple s d f)"
        using s d f by (simp add: generate_commands_from_car_control_def triple_def)
      let ?st1 = "snd (generate_speed_commands st s)"
      let ?st2 = "snd (facing_step ?st1 f)"
      from assms have
        "c = ''BSTD'' \<or> c \<in> set (fst (generate_speed_commands st s))
          \<or> c \<in> set (fst (facing_step ?st1 f)) \<or> c \<in> set (fst (steering_step ?st2 d))"
        unfolding ctl generate_triple_eq by (simp split: if_splits)
      then consider "c = ''BSTD''" | "c \<in> set (fst (generate_speed_commands st s))"
        | "c \<in> set (fst (facing_step ?st1 f))" | "c \<in> set (fst (steering_step ?st2 d))"
        by blast
      then show ?thesis
      proof cases
        case 1
        then show ?thesis by simp
      next
        case 2
        from speed_commands_mem [OF this] show ?thesis by blast
      next
        case 3
        from facing_step_mem [OF this] show ?thesis by blast
      next
        case 4
        have "500 \<le> max 500 (min 2500 d) \<and> max 500 (min 2500 d) \<le> 2500" by simp
        with steering_step_mem [OF 4] show ?thesis by blast
      qed
    qed
  qed
qed

lemma no_stop_when_moving:
  "s \<noteq> 0 \<Longrightarrow> ''BSTD'' \<notin> set (fst (generate_commands_from_car_control st (triple s d f)))"
  by (simp add: generate_triple_eq generate_speed_commands_eq facing_step_eq steering_step_eq)

text \<open>A sample run used by the examples below: a fresh generator and a valid triple.\<close>

lemma generate_fresh_600_1400:
  "generate_commands_from_car_control init_generator (triple 600 1400 True)
     = ([''<SPD-600>'', ''<BUPD>'', ''<SUP-1400>''],
        \<lparr>current_speed = 600, last_is_forward = Some True, previous_angle = Some 1400\<rparr>)"
  by (simp add: generate_triple_eq generate_speed_commands_eq facing_step_eq steering_step_eq
      init_generator_def BASE_SPEED_def str_int_def str_nat.simps digit_char_def)

section \<open>Binary64 rounding: binades, monotonicity, evaluation\<close>

lemma ge1_bounds: "1 \<le> x \<Longrightarrow> 0 \<le> ilog2_ge1 x \<and> 2 powi (ilog2_ge1 x) \<le> x \<and> x < 2 powi (ilog2_ge1 x + 1)"
proof (induction x rule: ilog2_ge1.induct)
  case (1 x)
  show ?case
  proof (cases "x < 2")
    case True
    with 1(2) show ?thesis by (simp add: ilog2_ge1.simps [of x])
  next
    case False
    then have "1 \<le> x / 2" by simp
    from 1(1) [OF False this]
    have ih: "0 \<le> ilog2_ge1 (x / 2)" "2 powi (ilog2_ge1 (x / 2)) \<le> x / 2"
      "x / 2 < 2 powi (ilog2_ge1 (x / 2) + 1)" by simp_all
    have e: "ilog2_ge1 x = 1 + ilog2_ge1 (x / 2)" using False by (simp add: ilog2_ge1.simps [of x])
    have "(2::real) powi (1 + ilog2_ge1 (x / 2)) = 2 * 2 powi (ilog2_ge1 (x / 2))"
      by (simp add: power_int_add)
    moreover have "(2::real) powi (1 + ilog2_ge1 (x / 2) + 1) = 2 * 2 powi (ilog2_ge1 (x / 2) + 1)"
      by (simp add: power_int_add)
    ultimately show ?thesis using ih unfolding e by simp
  qed
qed

lemma lt1_lower: "- int n \<le> ilog2_lt1 n x \<and> ilog2_lt1 n x \<le> 0"
proof (induction n arbitrary: x)
  case 0
  show ?case by simp
next
  case (Suc n)
  from Suc [of "2 * x"] show ?case by simp
qed

lemma lt1_upper: "0 \<le> x \<Longrightarrow> x < 2 \<Longrightarrow> x < 2 powi (ilog2_lt1 n x + 1)"
proof (induction n arbitrary: x)
  case 0
  then show ?case by simp
next
  case (Suc n)
  show ?case
  proof (cases "1 \<le> x")
    case True
    with Suc.prems show ?thesis by simp
  next
    case False
    then have "2 * x < 2" "0 \<le> 2 * x" using Suc.prems by simp_all
    from Suc.IH [OF this(2) this(1)] have "2 * x < 2 powi (ilog2_lt1 n (2 * x) + 1)" .
    also have "\<dots> = 2 * 2 powi (ilog2_lt1 n (2 * x))" by (simp add: power_int_add)
    finally show ?thesis using False by simp
  qed
qed

lemma lt1_tight: "- int n < ilog2_lt1 n x \<Longrightarrow> 2 powi (ilog2_lt1 n x) \<le> x"
proof (induction n arbitrary: x)
  case 0
  then show ?case by simp
next
  case (Suc n)
  show ?case
  proof (cases "1 \<le> x")
    case True
    then show ?thesis by simp
  next
    case False
    with Suc.prems have "- int n < ilog2_lt1 n (2 * x)" by simp
    from Suc.IH [OF this] have "2 powi (ilog2_lt1 n (2 * x)) \<le> 2 * x" .
    moreover have "(2::real) powi (ilog2_lt1 n (2 * x)) = 2 * 2 powi (ilog2_lt1 n (2 * x) - 1)"
      by (simp add: power_int_diff)
    ultimately show ?thesis using False by simp
  qed
qed

lemma expo_ge: "- 1022 \<le> expo x"
proof (cases "1 \<le> x")
  case True
  from ge1_bounds [OF True] have "0 \<le> ilog2_ge1 x" by simp
  with True show ?thesis by (simp add: expo_def)
next
  case False
  with lt1_lower [of 1022 x] show ?thesis by (simp add: expo_def)
qed

lemma expo_upper: "0 \<le> x \<Longrightarrow> x < 2 powi (expo x + 1)"
  using lt1_upper [of x 1022] ge1_bounds [of x] by (simp add: expo_def)

lemma expo_lower: "- 1022 < expo x \<Longrightarrow> 2 powi (expo x) \<le> x"
  using lt1_tight [of 1022 x] ge1_bounds [of x] by (simp add: expo_def split: if_splits)


lemma expo_unique:
  assumes "- 1022 \<le> e" and "2 powi e \<le> x" and "x < 2 powi (e + 1)"
  shows "expo x = e"
proof (rule antisym)
  have "(0::real) < 2 powi e" by simp
  with assms(2) have x0: "0 \<le> x" by linarith
  show "expo x \<le> e"
  proof (rule ccontr)
    assume "\<not> expo x \<le> e"
    then have gt: "e + 1 \<le> expo x" by simp
    with assms(1) have "- 1022 < expo x" by simp
    from expo_lower [OF this] have "2 powi (expo x) \<le> x" .
    moreover have "(2::real) powi (e + 1) \<le> 2 powi (expo x)"
      using gt by (intro power_int_increasing) simp_all
    ultimately show False using assms(3) by simp
  qed
  show "e \<le> expo x"
  proof (rule ccontr)
    assume "\<not> e \<le> expo x"
    then have lt: "expo x + 1 \<le> e" by simp
    have "(2::real) powi (expo x + 1) \<le> 2 powi e"
      using lt by (intro power_int_increasing) simp_all
    with expo_upper [OF x0] assms(2) show False by simp
  qed
qed

lemma expo_mono:
  assumes "0 \<le> x" and "x \<le> y"
  shows "expo x \<le> expo y"
proof (rule ccontr)
  assume "\<not> expo x \<le> expo y"
  then have gt: "expo y + 1 \<le> expo x" by simp
  with expo_ge [of y] have "- 1022 < expo x" by simp
  from expo_lower [OF this] have "2 powi (expo x) \<le> x" .
  moreover have "(2::real) powi (expo y + 1) \<le> 2 powi (expo x)"
    using gt by (intro power_int_increasing) simp_all
  moreover have "y < 2 powi (expo y + 1)" using assms by (intro expo_upper) simp
  ultimately show False using assms(2) by simp
qed

lemma round_half_even_bounds: "\<lfloor>x\<rfloor> \<le> round_half_even x \<and> round_half_even x \<le> \<lceil>x\<rceil>"
proof -
  have "x - of_int \<lfloor>x\<rfloor> \<noteq> 0 \<Longrightarrow> \<lfloor>x\<rfloor> + 1 \<le> \<lceil>x\<rceil>"
    by (metis ceiling_altdef order_refl eq_iff_diff_eq_0)
  moreover have "x - of_int \<lfloor>x\<rfloor> = 1 / 2 \<Longrightarrow> x - of_int \<lfloor>x\<rfloor> \<noteq> 0" by simp
  moreover have "x - of_int \<lfloor>x\<rfloor> > 1 / 2 \<Longrightarrow> x - of_int \<lfloor>x\<rfloor> \<noteq> 0" by simp
  ultimately show ?thesis
    by (auto simp add: round_half_even_def Let_def)
qed

lemma round_half_even_mono:
  assumes "x \<le> y"
  shows "round_half_even x \<le> round_half_even y"
proof (cases "\<lfloor>x\<rfloor> = \<lfloor>y\<rfloor>")
  case True
  with assms have "x - of_int \<lfloor>x\<rfloor> \<le> y - of_int \<lfloor>y\<rfloor>" by simp
  with True show ?thesis by (auto simp add: round_half_even_def Let_def)
next
  case False
  with assms have "\<lfloor>x\<rfloor> + 1 \<le> \<lfloor>y\<rfloor>" using floor_mono [OF assms] by simp
  moreover have "round_half_even x \<le> \<lfloor>x\<rfloor> + 1"
    by (auto simp add: round_half_even_def Let_def)
  moreover have "\<lfloor>y\<rfloor> \<le> round_half_even y"
    using round_half_even_bounds by blast
  ultimately show ?thesis by linarith
qed


lemma ulp_pos: "0 < ulp x"
  by (simp add: ulp_def)

lemma rd_pos_nonneg: "0 \<le> x \<Longrightarrow> 0 \<le> rd_pos x"
proof -
  assume "0 \<le> x"
  then have "0 \<le> x / ulp x" using ulp_pos [of x] by simp
  then have "0 \<le> \<lfloor>x / ulp x\<rfloor>" by simp
  with round_half_even_bounds [of "x / ulp x"] have "0 \<le> round_half_even (x / ulp x)" by linarith
  then show ?thesis using ulp_pos [of x] by (simp add: rd_pos_def)
qed

lemma rd_pos_le_next_power:
  assumes "0 \<le> x"
  shows "rd_pos x \<le> 2 powi (expo x + 1)"
proof -
  have split: "(2::real) powi (expo x + 1) = 2 ^ 53 * ulp x"
  proof -
    have "(2::real) powi (expo x + 1) = 2 powi (53 + (expo x - 52))"
      by (rule arg_cong [where f = "\<lambda>k. 2 powi k"]) simp
    also have "\<dots> = 2 powi 53 * 2 powi (expo x - 52)" by (rule power_int_add) simp
    finally show ?thesis by (simp add: ulp_def)
  qed
  from expo_upper [OF assms] have "x < 2 ^ 53 * ulp x" by (simp only: split)
  then have "x / ulp x < 2 ^ 53" using ulp_pos [of x] by (simp add: field_simps)
  then have "x / ulp x \<le> of_int (2 ^ 53)" by simp
  then have "\<lceil>x / ulp x\<rceil> \<le> 2 ^ 53" by (simp only: ceiling_le_iff)
  with round_half_even_bounds [of "x / ulp x"]
  have "round_half_even (x / ulp x) \<le> 2 ^ 53" by linarith
  then have "real_of_int (round_half_even (x / ulp x)) \<le> real_of_int (2 ^ 53)"
    by (simp only: of_int_le_iff)
  then have "real_of_int (round_half_even (x / ulp x)) * ulp x \<le> 2 ^ 53 * ulp x"
    using ulp_pos [of x] by simp
  then show ?thesis by (simp only: rd_pos_def split)
qed

lemma rd_pos_ge_power:
  assumes "- 1022 < expo y"
  shows "2 powi (expo y) \<le> rd_pos y"
proof -
  have split: "(2::real) powi (expo y) = 2 ^ 52 * ulp y"
  proof -
    have "(2::real) powi (expo y) = 2 powi (52 + (expo y - 52))"
      by (rule arg_cong [where f = "\<lambda>k. 2 powi k"]) simp
    also have "\<dots> = 2 powi 52 * 2 powi (expo y - 52)" by (rule power_int_add) simp
    finally show ?thesis by (simp add: ulp_def)
  qed
  from expo_lower [OF assms] have "2 ^ 52 * ulp y \<le> y" by (simp only: split)
  then have "2 ^ 52 \<le> y / ulp y" using ulp_pos [of y] by (simp add: field_simps)
  then have "of_int (2 ^ 52) \<le> y / ulp y" by simp
  then have "2 ^ 52 \<le> \<lfloor>y / ulp y\<rfloor>" by (simp only: le_floor_iff)
  with round_half_even_bounds [of "y / ulp y"]
  have "2 ^ 52 \<le> round_half_even (y / ulp y)" by linarith
  then have "real_of_int (2 ^ 52) \<le> real_of_int (round_half_even (y / ulp y))"
    by (simp only: of_int_le_iff)
  then have "2 ^ 52 * ulp y \<le> real_of_int (round_half_even (y / ulp y)) * ulp y"
    using ulp_pos [of y] by simp
  then show ?thesis by (simp only: rd_pos_def split)
qed

lemma rd_pos_mono:
  assumes "0 \<le> x" and "x \<le> y"
  shows "rd_pos x \<le> rd_pos y"
proof (cases "expo x = expo y")
  case True
  then have u: "ulp x = ulp y" by (simp add: ulp_def)
  from assms(2) have "x / ulp y \<le> y / ulp y" using ulp_pos [of y] by (simp add: divide_right_mono)
  then have "round_half_even (x / ulp y) \<le> round_half_even (y / ulp y)"
    by (rule round_half_even_mono)
  then have "real_of_int (round_half_even (x / ulp y)) \<le> real_of_int (round_half_even (y / ulp y))"
    by (simp only: of_int_le_iff)
  then show ?thesis using ulp_pos [of y] by (simp add: rd_pos_def u)
next
  case False
  with expo_mono [OF assms] have lt: "expo x + 1 \<le> expo y" by simp
  with expo_ge [of x] have "- 1022 < expo y" by simp
  from rd_pos_ge_power [OF this] have "2 powi (expo y) \<le> rd_pos y" .
  moreover have "(2::real) powi (expo x + 1) \<le> 2 powi (expo y)"
    using lt by (intro power_int_increasing) simp_all
  moreover note rd_pos_le_next_power [OF assms(1)]
  ultimately show ?thesis by linarith
qed

lemma rd_nonneg: "0 \<le> x \<Longrightarrow> 0 \<le> rd x"
  by (simp add: rd_def rd_pos_nonneg)

lemma rd_mono:
  assumes "x \<le> y"
  shows "rd x \<le> rd y"
proof -
  consider "0 \<le> x" | "x < 0" "0 \<le> y" | "y < 0" by linarith
  then show ?thesis
  proof cases
    case 1
    with assms rd_pos_mono [of x y] show ?thesis by (simp add: rd_def)
  next
    case 2
    then have "0 \<le> rd_pos (- x)" and "0 \<le> rd_pos y" by (simp_all add: rd_pos_nonneg)
    with 2 show ?thesis by (simp add: rd_def)
  next
    case 3
    with assms rd_pos_mono [of "- y" "- x"] show ?thesis by (simp add: rd_def)
  qed
qed

lemma rd_eval:
  assumes "- 1022 \<le> e" and "2 powi e \<le> x" and "x < 2 powi (e + 1)"
  shows "rd x = of_int (round_half_even (x / 2 powi (e - 52))) * 2 powi (e - 52)"
proof -
  have "(0::real) < 2 powi e" by simp
  with assms(2) have "\<not> x < 0" by linarith
  moreover have "expo x = e" using assms by (rule expo_unique)
  ultimately show ?thesis by (simp add: rd_def rd_pos_def ulp_def)
qed

lemmas fl_defs = fl_add_def fl_sub_def fl_mul_def fl_div_def

lemmas rd_evals =
  rd_eval [where e = "- 9"] rd_eval [where e = "- 7"] rd_eval [where e = "- 6"]
  rd_eval [where e = "- 5"] rd_eval [where e = "- 2"] rd_eval [where e = "- 1"]
  rd_eval [where e = "0"] rd_eval [where e = "3"] rd_eval [where e = "4"]
  rd_eval [where e = "6"] rd_eval [where e = "7"] rd_eval [where e = "8"]
  rd_eval [where e = "9"] rd_eval [where e = "10"]

lemma rd_zero: "rd 0 = 0"
  by (simp add: rd_def rd_pos_def round_half_even_def)

section \<open>The converter's steps in closed form\<close>

lemma py_int_mono: "x \<le> y \<Longrightarrow> py_int x \<le> py_int y"
proof -
  assume xy: "x \<le> y"
  consider "y < 0" | "x < 0" "0 \<le> y" | "0 \<le> x" by linarith
  then show ?thesis
  proof cases
    case 1
    with xy show ?thesis by (simp add: py_int_def ceiling_mono)
  next
    case 2
    then have "\<lceil>x\<rceil> \<le> 0" and "0 \<le> \<lfloor>y\<rfloor>" by simp_all
    then have "\<lceil>x\<rceil> \<le> \<lfloor>y\<rfloor>" by linarith
    with 2 show ?thesis by (simp add: py_int_def)
  next
    case 3
    with xy show ?thesis by (simp add: py_int_def floor_mono)
  qed
qed

lemma calculate_speed_fst:
  "fst (calculate_speed st a m) =
     (if max 0 (min m 100) > 95 then 500
      else max 500 (min (py_int (fl_add 500 (fl_mul (fl_div (max 0 (min a 100)) 100) 300))) 800))"
  by (simp add: calculate_speed_def Let_def config_defs)

lemma calculate_speed_prev:
  "previous_direction (snd (calculate_speed st a m)) = previous_direction st"
  by (simp add: calculate_speed_def Let_def)

text \<open>
  Sample values. The third one is a float input on which the rounding of the float
  operations decides the result: exact arithmetic on the same input would give 500.
\<close>

lemma calculate_speed_50: "fst (calculate_speed st 50 50) = 650"
  by (simp add: calculate_speed_fst fl_defs rd_evals round_half_even_def power_int_minus
      py_int_def)

lemma calculate_speed_80: "fst (calculate_speed st 80 20) = 740"
  by (simp add: calculate_speed_fst fl_defs rd_evals round_half_even_def power_int_minus
      py_int_def)

lemma calculate_speed_rounding_example:
  "fst (calculate_speed st (6004799503160661 / 18014398509481984) 20) = 501
   \<and> \<lfloor>500 + ((6004799503160661 / 18014398509481984) / 100) * (300::real)\<rfloor> = 500"
  by (simp add: calculate_speed_fst fl_defs rd_evals round_half_even_def power_int_minus
      py_int_def)

lemma change_threshold_eq: "fl_mul 2000 (rd (1 / 100)) = 20"
  by (simp add: fl_defs rd_evals round_half_even_def power_int_minus)

lemma calculate_direction_eq:
  "calculate_direction st z =
     (if 100 * \<bar>computed_direction z - previous_direction st\<bar> < MAX_DIRECTION - MIN_DIRECTION
      then (previous_direction st, st)
      else (computed_direction z,
            st\<lparr>previous_direction := computed_direction z,
               car_status := (car_status st)\<lparr>status_direction := computed_direction z\<rparr>\<rparr>))"
proof -
  have thr: "fl_mul (real_of_int (MAX_DIRECTION - MIN_DIRECTION)) (rd (1 / 100)) = 20"
    using change_threshold_eq by (simp add: config_defs)
  have "(real_of_int k < 20) = (100 * k < MAX_DIRECTION - MIN_DIRECTION)" for k :: int
    by (simp add: config_defs)
  then show ?thesis by (simp only: calculate_direction_def Let_def thr)
qed

lemma computed_direction_45: "computed_direction 45 = 1100"
proof -
  have s1: "fl_div 45 90 = 1 / 2"
    by (simp add: fl_defs rd_eval [where e = "- 1"] round_half_even_def power_int_minus)
  have s2: "fl_mul (1 / 2) 2 = 1"
    by (simp add: fl_defs rd_eval [where e = "0"] round_half_even_def power_int_minus)
  have s3: "fl_mul 1 400 = 400"
    by (simp add: fl_defs rd_eval [where e = "8"] round_half_even_def power_int_minus)
  have s4: "fl_sub 1500 400 = 1100"
    by (simp add: fl_defs rd_eval [where e = "10"] round_half_even_def power_int_minus)
  show ?thesis
    by (simp add: computed_direction_def Let_def config_defs py_int_def s1 s2 s3 s4)
qed

lemma computed_direction_1: "computed_direction 1 = 1491"
proof -
  have s1: "fl_div 1 90 = 6405119470038039 / 576460752303423488"
    by (simp add: fl_defs rd_eval [where e = "- 7"] round_half_even_def power_int_minus)
  have s2: "fl_mul (6405119470038039 / 576460752303423488) 2
              = 6405119470038039 / 288230376151711744"
    by (simp add: fl_defs rd_eval [where e = "- 6"] round_half_even_def power_int_minus)
  have s3: "fl_mul (6405119470038039 / 288230376151711744) 400
              = 2501999792983609 / 281474976710656"
    by (simp add: fl_defs rd_eval [where e = "3"] round_half_even_def power_int_minus)
  have s4: "fl_sub 1500 (2501999792983609 / 281474976710656)
              = 6557976019890631 / 4398046511104"
    by (simp add: fl_defs rd_eval [where e = "10"] round_half_even_def power_int_minus)
  show ?thesis
    by (simp add: computed_direction_def Let_def config_defs py_int_def s1 s2 s3 s4)
qed

lemma computed_direction_0: "computed_direction 0 = 1500"
  by (simp add: computed_direction_def Let_def config_defs py_int_def)

text \<open>
  A float tilt on which the rounding decides the result: exact arithmetic on the same
  input would give 1475.
\<close>

lemma computed_direction_rounding_example:
  "computed_direction (3039929748475085 / 1125899906842624) = 1476"
proof -
  have s1: "fl_div (3039929748475085 / 1125899906842624) 90
              = 8646911284551353 / 288230376151711744"
    by (simp add: fl_defs rd_eval [where e = "- 6"] round_half_even_def power_int_minus)
  have s2: "fl_mul (8646911284551353 / 288230376151711744) 2
              = 8646911284551353 / 144115188075855872"
    by (simp add: fl_defs rd_eval [where e = "- 5"] round_half_even_def power_int_minus)
  have s3: "fl_mul (8646911284551353 / 144115188075855872) 400
              = 6755399441055745 / 281474976710656"
    by (simp add: fl_defs rd_eval [where e = "4"] round_half_even_def power_int_minus)
  have s4: "fl_sub 1500 (6755399441055745 / 281474976710656) = 1476"
    by (simp add: fl_defs rd_eval [where e = "10"] round_half_even_def power_int_minus)
  show ?thesis
    by (simp add: computed_direction_def Let_def config_defs py_int_def s1 s2 s3 s4)
qed

lemma calculate_forward_direction_fst:
  "fst (calculate_forward_direction st y) = (case y of None \<Rightarrow> False | Some v \<Rightarrow> v < 10)"
  by (simp add: calculate_forward_direction_def Let_def split: option.splits)

lemma convert_fst:
  "fst (convert_essential_data st data)
     = (case fst (convert_try st data) of Inl e \<Rightarrow> None | Inr r \<Rightarrow> r)"
  by (simp add: convert_essential_data_def split: prod.splits sum.splits)

lemma convert_wellformed:
  "fst (convert_essential_data st
          \<lparr>attention = Some (PyNum a), meditation = Some (PyNum m), gyro = Some (GyroDict g)\<rparr>) =
     (case gyro_get (GyroDict g) ''z'' of
        PyNone \<Rightarrow> None
      | PyNum z \<Rightarrow>
          Some \<lparr>speed = Some (fst (calculate_speed st a m)),
                direction = Some (fst (calculate_direction (snd (calculate_speed st a m)) z)),
                is_forward = Some (case gyro_get (GyroDict g) ''y'' of
                                     PyNone \<Rightarrow> False | PyNum y \<Rightarrow> y < 10)\<rparr>)"
  by (simp add: convert_fst convert_try_def Let_def calculate_forward_direction_def
      split: prod.splits pyval.splits)

lemma convert_SomeD:
  assumes "fst (convert_essential_data st data) = Some t"
  shows "\<exists>a m d f. attention data = Some (PyNum a) \<and> meditation data = Some (PyNum m)
           \<and> t = triple (fst (calculate_speed st a m)) d f"
  using assms
  by (auto simp add: convert_fst convert_try_def Let_def triple_def
      split: option.splits pyval.splits prod.splits if_splits)

lemma convert_missing_y_forward:
  assumes "gyro data = Some (GyroDict g)" and "g ''y'' = None"
    and "fst (convert_essential_data st data) = Some t"
  shows "is_forward t = Some True"
  using assms
  by (auto simp add: convert_fst convert_try_def Let_def gyro_get_def
      calculate_forward_direction_def
      split: option.splits pyval.splits prod.splits if_splits)

lemma convert_numeric_returns:
  assumes "gyro data = Some (GyroDict g)" and "g ''z'' \<noteq> Some PyNone"
    and "attention data = Some (PyNum a)" and "meditation data = Some (PyNum m)"
  shows "\<exists>t. fst (convert_essential_data st data) = Some t"
  using assms
  by (auto simp add: convert_fst convert_try_def Let_def gyro_get_def
      split: option.splits pyval.splits prod.splits)

text \<open>
  The sample \<open>attention = 80, meditation = 20, gyro = {y: 5, z: 45}\<close> on a fresh converter.
\<close>

lemma convert_fresh_sample:
  "fst (convert_essential_data init_converter
          \<lparr>attention = Some (PyNum 80), meditation = Some (PyNum 20),
           gyro = Some (GyroDict [''y'' \<mapsto> PyNum 5, ''z'' \<mapsto> PyNum 45])\<rparr>)
     = Some (triple 740 1100 True)"
  by (simp add: convert_wellformed gyro_get_def calculate_speed_80 calculate_direction_eq
      computed_direction_45 calculate_speed_prev init_converter_def config_defs triple_def)

section \<open>Claims about the command generator\<close>

text \<open>
  C1. For every control triple whose speed is 0, and from every generator state,
  \<open>generate_commands_from_car_control\<close> returns exactly the one stop command and no
  facing or steering command, and the stored current speed is 0 afterwards. Since the
  state is arbitrary (it may already hold speed 0), the stop command is issued again on
  every such call.
\<close>

theorem C1_stop_only:
  "generate_commands_from_car_control st (triple 0 d f)
     = ([''BSTD''], st\<lparr>current_speed := 0\<rparr>)"
  by (simp add: generate_triple_eq)

text \<open>
  C2. For every control triple with a nonzero speed, a second call with the identical
  triple, made on the state the first call left, returns the empty list.
\<close>

theorem C2_second_call_empty:
  "s \<noteq> 0 \<Longrightarrow>
   fst (generate_commands_from_car_control
          (snd (generate_commands_from_car_control st (triple s d f))) (triple s d f)) = []"
  by (simp add: generate_triple_eq generate_speed_commands_eq facing_step_eq steering_step_eq)

theorem C2_second_call_empty_witness:
  "(600::int) \<noteq> 0 \<and>
   fst (generate_commands_from_car_control init_generator (triple 600 1400 True))
     = [''<SPD-600>'', ''<BUPD>'', ''<SUP-1400>''] \<and>
   fst (generate_commands_from_car_control
          (snd (generate_commands_from_car_control init_generator (triple 600 1400 True)))
          (triple 600 1400 True)) = []"
  using C2_second_call_empty [of 600 init_generator 1400 True]
  by (simp add: generate_fresh_600_1400)

text \<open>
  C3. For every control triple and every generator state: when the list returned by one
  call holds a speed command, a facing command and a steering command, the list is
  exactly these three commands in the order speed, facing, steering.
\<close>

theorem C3_order_speed_facing_steering:
  assumes "list_ex is_speed_command (fst (generate_commands_from_car_control st (triple s d f)))"
    and "list_ex is_facing_command (fst (generate_commands_from_car_control st (triple s d f)))"
    and "list_ex is_steering_command (fst (generate_commands_from_car_control st (triple s d f)))"
  shows "\<exists>a b c. fst (generate_commands_from_car_control st (triple s d f)) = [a, b, c]
           \<and> is_speed_command a \<and> is_facing_command b \<and> is_steering_command c"
  using assms
  by (auto simp add: generate_triple_eq generate_speed_commands_eq facing_step_eq steering_step_eq
      is_speed_command_def is_facing_command_def is_steering_command_def
      get_stop_all_command_eq get_forward_command_eq get_backward_command_eq
      split: if_splits)

theorem C3_order_speed_facing_steering_witness:
  "list_ex is_speed_command [''<SPD-600>'', ''<BUPD>'', ''<SUP-1400>''] \<and>
   list_ex is_facing_command [''<SPD-600>'', ''<BUPD>'', ''<SUP-1400>''] \<and>
   list_ex is_steering_command [''<SPD-600>'', ''<BUPD>'', ''<SUP-1400>''] \<and>
   fst (generate_commands_from_car_control init_generator (triple 600 1400 True))
     = [''<SPD-600>'', ''<BUPD>'', ''<SUP-1400>''] \<and>
   (\<exists>a b c. fst (generate_commands_from_car_control init_generator (triple 600 1400 True))
        = [a, b, c] \<and> is_speed_command a \<and> is_facing_command b \<and> is_steering_command c)"
proof -
  have out: "fst (generate_commands_from_car_control init_generator (triple 600 1400 True))
      = [''<SPD-600>'', ''<BUPD>'', ''<SUP-1400>'']"
    by (simp add: generate_fresh_600_1400)
  have a: "list_ex is_speed_command [''<SPD-600>'', ''<BUPD>'', ''<SUP-1400>'']"
    by (simp add: is_speed_command_def)
  have b: "list_ex is_facing_command [''<SPD-600>'', ''<BUPD>'', ''<SUP-1400>'']"
    by (simp add: is_facing_command_def get_forward_command_eq)
  have c: "list_ex is_steering_command [''<SPD-600>'', ''<BUPD>'', ''<SUP-1400>'']"
    by (simp add: is_steering_command_def)
  have "\<exists>a b c. fst (generate_commands_from_car_control init_generator (triple 600 1400 True))
        = [a, b, c] \<and> is_speed_command a \<and> is_facing_command b \<and> is_steering_command c"
    by (rule C3_order_speed_facing_steering) (simp_all only: out a b c)
  with a b c out show ?thesis by (intro conjI)
qed

text \<open>
  C7 (counterexample to the statement that every movement token is bracket-delimited).
  For a zero speed the generator emits the stop-all token of the vocabulary, \<open>BSTD\<close>,
  which carries no angle brackets.
\<close>

theorem C7_stop_token_counterexample:
  "fst (generate_commands_from_car_control init_generator (triple 0 1500 True)) = [''BSTD'']
   \<and> get_stop_all_command = Some ''BSTD''
   \<and> \<not> bracket_delimited ''BSTD''"
  by (simp add: generate_triple_eq get_stop_all_command_eq bracket_delimited_def)

text \<open>
  C7 (amended statement). Every command the generator emits is one of: the stop-all token
  \<open>BSTD\<close>, which carries no brackets; the forward token \<open><BUPD>\<close> or the backward
  token \<open><BDND>\<close>; a speed command \<open><SPD-n>\<close> with \<open>n\<close> in \<open>[500, 1000]\<close>; a steering
  command \<open><SUP-a>\<close> with \<open>a\<close> in \<open>[500, 2500]\<close>. Every one of them except the stop-all
  token is delimited by angle brackets.
\<close>

theorem C7_emitted_vocabulary:
  assumes "c \<in> set (fst (generate_commands_from_car_control st ctl))"
  shows "(c = ''BSTD'' \<or> c = ''<BUPD>'' \<or> c = ''<BDND>''
           \<or> (\<exists>n. 500 \<le> n \<and> n \<le> 1000 \<and> c = ''<SPD-'' @ str_int n @ ''>'')
           \<or> (\<exists>a. 500 \<le> a \<and> a \<le> 2500 \<and> c = ''<SUP-'' @ str_int a @ ''>''))
         \<and> (c = ''BSTD'' \<or> bracket_delimited c)"
proof -
  note m = generate_mem [OF assms]
  have "c = ''BSTD'' \<or> bracket_delimited c"
    using m bracket_delimited_template [of "''BUPD''"] bracket_delimited_template [of "''BDND''"]
      bracket_delimited_template [of "''SPD-'' @ str_int n" for n]
      bracket_delimited_template [of "''SUP-'' @ str_int n" for n]
    by auto
  with m show ?thesis by (rule conjI)
qed

theorem C7_emitted_vocabulary_witness:
  "''<SUP-1400>'' \<in> set (fst (generate_commands_from_car_control init_generator
                                  (triple 600 1400 True)))
   \<and> (''<SUP-1400>'' = ''BSTD'' \<or> bracket_delimited ''<SUP-1400>'')"
proof -
  have mem: "''<SUP-1400>'' \<in> set (fst (generate_commands_from_car_control init_generator
                                            (triple 600 1400 True)))"
    by (simp add: generate_fresh_600_1400)
  from C7_emitted_vocabulary [OF mem]
  have "''<SUP-1400>'' = ''BSTD'' \<or> bracket_delimited ''<SUP-1400>''"
    by (rule conjunct2)
  with mem show ?thesis by (rule conjI)
qed

text \<open>
  C8. For every target speed that is nonzero and outside \<open>[500, 1000]\<close>, the speed step
  returns no command and leaves the state as it was; the whole call then holds no speed
  command and leaves the stored current speed unchanged. The model has no failure
  branch on this path: the source only logs a warning.
\<close>

theorem C8_out_of_range_speed_rejected:
  "t \<noteq> 0 \<Longrightarrow> t < 500 \<or> 1000 < t \<Longrightarrow>
   generate_speed_commands st t = ([], st) \<and>
   current_speed (snd (generate_commands_from_car_control st (triple t d f))) = current_speed st \<and>
   \<not> list_ex is_speed_command (fst (generate_commands_from_car_control st (triple t d f)))"
  by (auto simp add: generate_triple_eq generate_speed_commands_eq facing_step_eq steering_step_eq
      is_speed_command_def get_stop_all_command_eq)

theorem C8_out_of_range_speed_rejected_witness:
  "(1200::int) \<noteq> 0 \<and> ((1200::int) < 500 \<or> (1000::int) < 1200) \<and>
   generate_speed_commands init_generator 1200 = ([], init_generator) \<and>
   current_speed (snd (generate_commands_from_car_control init_generator (triple 1200 1400 True)))
     = 500 \<and>
   fst (generate_commands_from_car_control init_generator (triple 1200 1400 True))
     = [''<BUPD>'', ''<SUP-1400>'']"
  using C8_out_of_range_speed_rejected [of 1200 init_generator 1400 True]
  by (simp add: generate_triple_eq generate_speed_commands_eq facing_step_eq steering_step_eq
      init_generator_def BASE_SPEED_def str_int_def str_nat.simps digit_char_def)

section \<open>Claims about the signal converter\<close>

text \<open>
  C4. Steering hysteresis. Let \<open>d\<close> be the direction computed from the tilt, clamped and
  truncated. If \<open>d\<close> differs from the stored previous direction by strictly less than 1%
  of \<open>MAX_DIRECTION - MIN_DIRECTION\<close>, \<open>calculate_direction\<close> returns the previous
  direction and leaves the state unchanged; otherwise it stores \<open>d\<close> as the previous
  direction and returns \<open>d\<close>.
\<close>

theorem C4_steering_hysteresis:
  "(100 * \<bar>computed_direction z - previous_direction st\<bar> < MAX_DIRECTION - MIN_DIRECTION
      \<longrightarrow> calculate_direction st z = (previous_direction st, st))
   \<and> (\<not> 100 * \<bar>computed_direction z - previous_direction st\<bar> < MAX_DIRECTION - MIN_DIRECTION
      \<longrightarrow> fst (calculate_direction st z) = computed_direction z
          \<and> previous_direction (snd (calculate_direction st z)) = computed_direction z)"
  by (simp add: calculate_direction_eq)

theorem C4_steering_hysteresis_witness:
  "100 * \<bar>computed_direction 1 - previous_direction init_converter\<bar> < MAX_DIRECTION - MIN_DIRECTION
   \<and> calculate_direction init_converter 1 = (1500, init_converter)
   \<and> \<not> 100 * \<bar>computed_direction 45 - previous_direction init_converter\<bar>
          < MAX_DIRECTION - MIN_DIRECTION
   \<and> fst (calculate_direction init_converter 45) = 1100
   \<and> previous_direction (snd (calculate_direction init_converter 45)) = 1100"
proof -
  have small: "100 * \<bar>computed_direction 1 - previous_direction init_converter\<bar>
                 < MAX_DIRECTION - MIN_DIRECTION"
    by (simp add: computed_direction_1 init_converter_def config_defs)
  have large: "\<not> 100 * \<bar>computed_direction 45 - previous_direction init_converter\<bar>
                 < MAX_DIRECTION - MIN_DIRECTION"
    by (simp add: computed_direction_45 init_converter_def config_defs)
  have prev: "previous_direction init_converter = 1500"
    by (simp add: init_converter_def config_defs)
  from C4_steering_hysteresis [of 1 init_converter] small prev
  have a: "calculate_direction init_converter 1 = (1500, init_converter)" by simp
  from C4_steering_hysteresis [of 45 init_converter] large
  have b: "fst (calculate_direction init_converter 45) = 1100
           \<and> previous_direction (snd (calculate_direction init_converter 45)) = 1100"
    by (simp add: computed_direction_45)
  from small a large b show ?thesis by simp
qed

text \<open>
  C5. For every sample whose meditation, clamped to \<open>[0, MAX_MEDITATION_VALUE]\<close>, exceeds
  \<open>MEDITATION_THRESHOLD\<close>, the speed is \<open>BASE_SPEED\<close> whatever the attention is: in
  \<open>calculate_speed\<close>, and in every triple that \<open>convert_essential_data\<close> returns for a
  sample with that meditation.
\<close>

theorem C5_meditation_forces_base_speed:
  assumes "real_of_int MEDITATION_THRESHOLD < max 0 (min m (real_of_int MAX_MEDITATION_VALUE))"
  shows "fst (calculate_speed st a m) = BASE_SPEED
         \<and> (\<forall>g t. fst (convert_essential_data st
                          \<lparr>attention = Some (PyNum a), meditation = Some (PyNum m), gyro = g\<rparr>)
                     = Some t \<longrightarrow> speed t = Some BASE_SPEED)"
proof -
  have base: "fst (calculate_speed st a' m) = BASE_SPEED" for a'
    using assms by (simp add: calculate_speed_fst config_defs)
  have "speed t = Some BASE_SPEED"
    if "fst (convert_essential_data st
               \<lparr>attention = Some (PyNum a), meditation = Some (PyNum m), gyro = g\<rparr>) = Some t"
    for g t
    using convert_SomeD [OF that] base by (auto simp add: triple_def)
  with base show ?thesis by blast
qed

theorem C5_meditation_forces_base_speed_witness:
  "real_of_int MEDITATION_THRESHOLD < max 0 (min 97 (real_of_int MAX_MEDITATION_VALUE))
   \<and> fst (calculate_speed init_converter 80 97) = 500
   \<and> fst (convert_essential_data init_converter
             \<lparr>attention = Some (PyNum 80), meditation = Some (PyNum 97),
              gyro = Some (GyroDict [''y'' \<mapsto> PyNum 5, ''z'' \<mapsto> PyNum 45])\<rparr>)
       = Some (triple 500 1100 True)"
proof -
  have h: "real_of_int MEDITATION_THRESHOLD < max 0 (min 97 (real_of_int MAX_MEDITATION_VALUE))"
    by (simp add: config_defs)
  have conv: "fst (convert_essential_data init_converter
             \<lparr>attention = Some (PyNum 80), meditation = Some (PyNum 97),
              gyro = Some (GyroDict [''y'' \<mapsto> PyNum 5, ''z'' \<mapsto> PyNum 45])\<rparr>)
       = Some (triple 500 1100 True)"
    by (simp add: convert_wellformed gyro_get_def calculate_speed_fst calculate_direction_eq
      computed_direction_45 calculate_speed_prev init_converter_def config_defs triple_def)
  from C5_meditation_forces_base_speed [OF h, of init_converter 80]
  have "fst (calculate_speed init_converter 80 97) = 500"
    by (simp add: BASE_SPEED_def)
  with h conv show ?thesis by simp
qed

text \<open>
  C6 (counterexample to the statement that a missing \<open>y\<close> entry gives backward). On a
  fresh converter, the sample \<open>attention = 50, meditation = 50, gyro = {x: 0, z: 0}\<close>
  has no \<open>y\<close> entry, and the triple returned for it faces forward:
  \<open>gyro.get('y', 0)\<close> supplies 0, and \<open>0 < 10\<close>.
\<close>

theorem C6_missing_y_counterexample:
  "[''x'' \<mapsto> PyNum 0, ''z'' \<mapsto> PyNum 0] ''y'' = None \<and>
   fst (convert_essential_data init_converter
          \<lparr>attention = Some (PyNum 50), meditation = Some (PyNum 50),
           gyro = Some (GyroDict [''x'' \<mapsto> PyNum 0, ''z'' \<mapsto> PyNum 0])\<rparr>)
     = Some \<lparr>speed = Some 650, direction = Some 1500, is_forward = Some True\<rparr>"
  by (simp add: convert_wellformed gyro_get_def calculate_speed_50 calculate_direction_eq
      calculate_speed_prev computed_direction_0 init_converter_def config_defs)

text \<open>
  C6 (amended statement). For every sample whose gyro dictionary has no \<open>y\<close> entry,
  whatever its other fields are, \<open>convert_essential_data\<close> treats the facing as forward:
  every triple it returns has \<open>is_forward = True\<close>. It never raises: an exception raised
  in its body is caught and \<open>None\<close> is returned. The triple is returned whenever attention
  and meditation are numbers and the \<open>z\<close> entry is absent or a number.
\<close>

theorem C6_missing_y_defaults_forward:
  assumes "gyro data = Some (GyroDict g)" and "g ''y'' = None"
  shows "(\<forall>e. fst (convert_try st data) = Inl e \<longrightarrow> fst (convert_essential_data st data) = None)
         \<and> (\<forall>t. fst (convert_essential_data st data) = Some t \<longrightarrow> is_forward t = Some True)
         \<and> (\<forall>a m. attention data = Some (PyNum a) \<and> meditation data = Some (PyNum m)
                   \<and> g ''z'' \<noteq> Some PyNone
                 \<longrightarrow> (\<exists>t. fst (convert_essential_data st data) = Some t))"
proof (intro conjI allI impI)
  fix e
  assume "fst (convert_try st data) = Inl e"
  then show "fst (convert_essential_data st data) = None" by (simp add: convert_fst)
next
  fix t
  assume "fst (convert_essential_data st data) = Some t"
  with assms show "is_forward t = Some True" by (rule convert_missing_y_forward)
next
  fix a m
  assume "attention data = Some (PyNum a) \<and> meditation data = Some (PyNum m)
            \<and> g ''z'' \<noteq> Some PyNone"
  with assms(1) show "\<exists>t. fst (convert_essential_data st data) = Some t"
    using convert_numeric_returns [of data g a m st] by blast
qed

theorem C6_missing_y_defaults_forward_witness:
  "gyro \<lparr>attention = Some (PyNum 50), meditation = Some (PyNum 50),
          gyro = Some (GyroDict [''z'' \<mapsto> PyNum 0])\<rparr> = Some (GyroDict [''z'' \<mapsto> PyNum 0])
   \<and> [''z'' \<mapsto> PyNum 0] ''y'' = None
   \<and> fst (convert_essential_data init_converter
             \<lparr>attention = Some (PyNum 50), meditation = Some (PyNum 50),
              gyro = Some (GyroDict [''z'' \<mapsto> PyNum 0])\<rparr>) = Some (triple 650 1500 True)
   \<and> is_forward (triple 650 1500 True) = Some True
   \<and> fst (convert_try init_converter
             \<lparr>attention = Some (PyNum 50), meditation = Some (PyNum 50),
              gyro = Some (GyroDict [''z'' \<mapsto> PyNone])\<rparr>) = Inl TypeError
   \<and> fst (convert_essential_data init_converter
             \<lparr>attention = Some (PyNum 50), meditation = Some (PyNum 50),
              gyro = Some (GyroDict [''z'' \<mapsto> PyNone])\<rparr>) = None"
proof -
  let ?d = "\<lparr>attention = Some (PyNum 50), meditation = Some (PyNum 50),
              gyro = Some (GyroDict [''z'' \<mapsto> PyNum 0])\<rparr>"
  let ?r = "\<lparr>attention = Some (PyNum 50), meditation = Some (PyNum 50),
              gyro = Some (GyroDict [''z'' \<mapsto> PyNone])\<rparr>"
  have g: "gyro ?d = Some (GyroDict [''z'' \<mapsto> PyNum 0])" by simp
  have y: "[''z'' \<mapsto> PyNum 0] ''y'' = None" by simp
  have conv: "fst (convert_essential_data init_converter ?d) = Some (triple 650 1500 True)"
    by (simp add: convert_wellformed gyro_get_def calculate_speed_50 calculate_direction_eq
      calculate_speed_prev computed_direction_0 init_converter_def config_defs triple_def)
  note inst = C6_missing_y_defaults_forward [OF g y, of init_converter]
  from inst conv have fwd: "is_forward (triple 650 1500 True) = Some True" by blast
  have gr: "gyro ?r = Some (GyroDict [''z'' \<mapsto> PyNone])" by simp
  have yr: "[''z'' \<mapsto> PyNone] ''y'' = None" by simp
  have raised: "fst (convert_try init_converter ?r) = Inl TypeError"
    by (simp add: convert_try_def gyro_get_def Let_def split: prod.splits)
  from C6_missing_y_defaults_forward [OF gr yr, of init_converter] raised
  have caught: "fst (convert_essential_data init_converter ?r) = None" by blast
  from g y conv fwd raised caught show ?thesis by (intro conjI)
qed

text \<open>
  C9. For every meditation value at most \<open>MEDITATION_THRESHOLD\<close>, the speed computed by
  \<open>calculate_speed\<close> is monotonically non-decreasing in the attention. Each float
  operation of the linear map rounds to nearest, and rounding to nearest is monotone.
\<close>

theorem C9_speed_monotone_in_attention:
  assumes "m \<le> real_of_int MEDITATION_THRESHOLD" and "a1 \<le> a2"
  shows "fst (calculate_speed st1 a1 m) \<le> fst (calculate_speed st2 a2 m)"
proof -
  let ?c1 = "max 0 (min a1 100)" and ?c2 = "max 0 (min a2 100)"
  from assms(1) have low: "\<not> max 0 (min m 100) > 95"
    by (simp add: config_defs)
  from assms(2) have "?c1 \<le> ?c2" by simp
  then have "?c1 / 100 \<le> ?c2 / 100" by simp
  then have q: "fl_div ?c1 100 \<le> fl_div ?c2 100"
    unfolding fl_div_def by (rule rd_mono)
  then have "fl_div ?c1 100 * 300 \<le> fl_div ?c2 100 * 300" by simp
  then have p: "fl_mul (fl_div ?c1 100) 300 \<le> fl_mul (fl_div ?c2 100) 300"
    unfolding fl_mul_def by (rule rd_mono)
  then have "500 + fl_mul (fl_div ?c1 100) 300 \<le> 500 + fl_mul (fl_div ?c2 100) 300" by simp
  then have "fl_add 500 (fl_mul (fl_div ?c1 100) 300) \<le> fl_add 500 (fl_mul (fl_div ?c2 100) 300)"
    unfolding fl_add_def by (rule rd_mono)
  then have "py_int (fl_add 500 (fl_mul (fl_div ?c1 100) 300))
               \<le> py_int (fl_add 500 (fl_mul (fl_div ?c2 100) 300))"
    by (rule py_int_mono)
  then have "max 500 (min (py_int (fl_add 500 (fl_mul (fl_div ?c1 100) 300))) 800)
               \<le> max 500 (min (py_int (fl_add 500 (fl_mul (fl_div ?c2 100) 300))) 800)"
    by linarith
  then show ?thesis by (simp only: calculate_speed_fst low if_False)
qed

theorem C9_speed_monotone_in_attention_witness:
  "(20::real) \<le> real_of_int MEDITATION_THRESHOLD \<and> (25::real) \<le> 50
   \<and> fst (calculate_speed init_converter 25 20) = 575
   \<and> fst (calculate_speed init_converter 50 20) = 650
   \<and> fst (calculate_speed init_converter 25 20) \<le> fst (calculate_speed init_converter 50 20)"
proof -
  have m: "(20::real) \<le> real_of_int MEDITATION_THRESHOLD" by (simp add: config_defs)
  have a: "(25::real) \<le> 50" by simp
  have v1: "fst (calculate_speed init_converter 25 20) = 575"
    by (simp add: calculate_speed_fst fl_defs rd_evals round_half_even_def power_int_minus
      py_int_def)
  have v2: "fst (calculate_speed init_converter 50 20) = 650"
    by (simp add: calculate_speed_fst fl_defs rd_evals round_half_even_def power_int_minus
      py_int_def)
  from m a v1 v2 C9_speed_monotone_in_attention [OF m a, of init_converter init_converter]
  show ?thesis by (intro conjI)
qed

text \<open>
  C10. For all real attention and meditation values, \<open>calculate_speed\<close> returns an
  integer in \<open>[BASE_SPEED, MAX_SPEED]\<close>, that is \<open>[500, 800]\<close>. Hence every triple that
  \<open>convert_essential_data\<close> returns has a speed in that range, never 0, and the generator
  run on such a triple never emits the stop command.
\<close>

theorem C10_speed_in_range:
  "BASE_SPEED \<le> fst (calculate_speed st a m) \<and> fst (calculate_speed st a m) \<le> MAX_SPEED
   \<and> BASE_SPEED = 500 \<and> MAX_SPEED = 800
   \<and> (\<forall>t. fst (convert_essential_data st data) = Some t \<longrightarrow>
         (\<exists>s. speed t = Some s \<and> BASE_SPEED \<le> s \<and> s \<le> MAX_SPEED \<and> s \<noteq> 0)
         \<and> ''BSTD'' \<notin> set (fst (generate_commands_from_car_control gst t)))"
proof -
  have rng: "500 \<le> fst (calculate_speed st a' m') \<and> fst (calculate_speed st a' m') \<le> 800"
    for a' m'
    by (simp add: calculate_speed_fst)
  have conv: "(\<exists>s. speed t = Some s \<and> BASE_SPEED \<le> s \<and> s \<le> MAX_SPEED \<and> s \<noteq> 0)
         \<and> ''BSTD'' \<notin> set (fst (generate_commands_from_car_control gst t))"
    if "fst (convert_essential_data st data) = Some t" for t
  proof -
    from convert_SomeD [OF that] obtain a' m' d f
      where t: "t = triple (fst (calculate_speed st a' m')) d f" by blast
    from rng [of a' m'] have nz: "fst (calculate_speed st a' m') \<noteq> 0" by simp
    have "speed t = Some (fst (calculate_speed st a' m'))" by (simp add: t triple_def)
    moreover have "''BSTD'' \<notin> set (fst (generate_commands_from_car_control gst t))"
      unfolding t by (rule no_stop_when_moving [OF nz])
    ultimately show ?thesis using rng [of a' m'] nz by (simp add: config_defs)
  qed
  from rng [of a m] conv show ?thesis by (simp add: config_defs)
qed

theorem C10_speed_in_range_witness:
  "fst (convert_essential_data init_converter
          \<lparr>attention = Some (PyNum 80), meditation = Some (PyNum 20),
           gyro = Some (GyroDict [''y'' \<mapsto> PyNum 5, ''z'' \<mapsto> PyNum 45])\<rparr>)
     = Some (triple 740 1100 True)
   \<and> speed (triple 740 1100 True) = Some 740
   \<and> ''BSTD'' \<notin> set (fst (generate_commands_from_car_control init_generator
                                 (triple 740 1100 True)))"
proof -
  note c = convert_fresh_sample
  from C10_speed_in_range [of init_converter 80 20
      "\<lparr>attention = Some (PyNum 80), meditation = Some (PyNum 20),
        gyro = Some (GyroDict [''y'' \<mapsto> PyNum 5, ''z'' \<mapsto> PyNum 45])\<rparr>" init_generator] c
  have "''BSTD'' \<notin> set (fst (generate_commands_from_car_control init_generator
                                 (triple 740 1100 True)))"
    by blast
  with c show ?thesis by (simp add: triple_def)
qed

end
